theory Spec2Isabelle
  imports Main "HOL-Library.Word"
begin

section \<open>The unsigned CoRIM container (corim/unsignedcorim.go)\<close>

text \<open>
  A shallow embedding of \<^verbatim>\<open>src/corim/unsignedcorim.go\<close>. Methods with a pointer
  receiver (\<^verbatim>\<open>SetID\<close>, the \<^verbatim>\<open>Add...\<close> builders, \<^verbatim>\<open>FromCBOR\<close>, \<^verbatim>\<open>FromJSON\<close>) act on an
  explicit heap of containers and return the pointer the Go method returns; methods with a
  value receiver (\<^verbatim>\<open>Valid\<close>, \<^verbatim>\<open>ToCBOR\<close>) are functions of the container value.
  What the file calls in other packages (\<^verbatim>\<open>swid\<close>, \<^verbatim>\<open>eat\<close>, the sub-manifest types, the
  CBOR and JSON engines) is an argument of the function that calls it; a Go function that
  returns a value with an error is a function into a sum, \<open>Inl\<close> the error.
\<close>

subsection \<open>Errors\<close>

text \<open>
  A Go \<^verbatim>\<open>error\<close> value as this file builds it: \<^verbatim>\<open>errors.New(s)\<close> and \<^verbatim>\<open>fmt.Errorf(s)\<close>
  without \<^verbatim>\<open>%w\<close> give a plain message; \<^verbatim>\<open>fmt.Errorf\<close> with \<^verbatim>\<open>%w\<close> gives the formatted
  message together with the wrapped cause. \<open>None :: error option\<close> is the \<^verbatim>\<open>nil\<close> error.
\<close>

datatype error = errorString string | wrapError string error

fun Error :: "error \<Rightarrow> string" where
  "Error (errorString s) = s"
| "Error (wrapError msg err) = msg"

text \<open>The verb \<^verbatim>\<open>%d\<close> on a loop index: the decimal digits of a non-negative integer.\<close>

definition digit :: "nat \<Rightarrow> char" where
  "digit d = ''0123456789'' ! d"

function itoa :: "nat \<Rightarrow> string" where
  "itoa n = (if n < 10 then [digit n] else itoa (n div 10) @ [digit (n mod 10)])"
  by pat_completeness auto
termination
  by (relation "measure (\<lambda>n. n)") auto

declare itoa.simps [simp del]

text \<open>\<^verbatim>\<open>fmt.Errorf(prefix + "%d: %w", i, err)\<close>.\<close>

definition Errorf_pos :: "string \<Rightarrow> nat \<Rightarrow> error \<Rightarrow> error" where
  "Errorf_pos prefix i err = wrapError (prefix @ itoa i @ '': '' @ Error err) err"

subsection \<open>Data model\<close>

type_synonym byte = "8 word"

text \<open>\<^verbatim>\<open>type Tag []byte\<close>\<close>

type_synonym Tag = "byte list"

text \<open>
  \<^verbatim>\<open>swid.TagID\<close> is declared outside this file, which only copies its values and compares
  them with the zero value \<^verbatim>\<open>swid.TagID{}\<close>: a tag id is that zero value or some other
  value, carried in \<open>'a\<close>.
\<close>

datatype 'a TagID = TagID_zero | TagID_val 'a

text \<open>
  \<^verbatim>\<open>swid.HashEntry\<close>, of which the file reads the fields \<^verbatim>\<open>HashAlgID\<close> and \<^verbatim>\<open>HashValue\<close>.
\<close>

record HashEntry =
  HashAlgID :: nat
  HashValue :: "byte list"

text \<open>
  \<^verbatim>\<open>Locator\<close>: \<^verbatim>\<open>comid.TaggedURI\<close> is a string type (the source converts a \<^verbatim>\<open>string\<close> to
  it); the thumbprint is a pointer, \<open>None\<close> when \<^verbatim>\<open>nil\<close>.
\<close>

record Locator =
  Href :: string
  Thumbprint :: "HashEntry option"

text \<open>
  \<^verbatim>\<open>UnsignedCorim\<close>: \<^verbatim>\<open>DependentRims\<close> and \<^verbatim>\<open>Profiles\<close> are pointers to slices, \<open>None\<close>
  when \<^verbatim>\<open>nil\<close>. \<open>'p\<close> is \<^verbatim>\<open>eat.Profile\<close>, declared outside this file.
\<close>

record ('a, 'p) UnsignedCorim =
  ID :: "'a TagID"
  Tags :: "Tag list"
  DependentRims :: "Locator list option"
  Profiles :: "'p list option"

text \<open>
  A \<^verbatim>\<open>*UnsignedCorim\<close> is \<^verbatim>\<open>nil\<close> (\<open>None\<close>) or the address of a container; the heap gives
  the container stored at each address.
\<close>

type_synonym addr = nat
type_synonym ptr = "addr option"
type_synonym ('a, 'p) heap = "addr \<Rightarrow> ('a, 'p) UnsignedCorim"

text \<open>The composite literal \<^verbatim>\<open>UnsignedCorim{}\<close>: every field has its zero value.\<close>

definition UnsignedCorim_zero :: "('a, 'p) UnsignedCorim" where
  "UnsignedCorim_zero = \<lparr>ID = TagID_zero, Tags = [], DependentRims = None, Profiles = None\<rparr>"

text \<open>
  \<^verbatim>\<open>NewUnsignedCorim\<close> returns \<^verbatim>\<open>&UnsignedCorim{}\<close>; \<open>a\<close> is the address the allocator
  picks for the new container.
\<close>

definition NewUnsignedCorim :: "addr \<Rightarrow> ('a, 'p) heap \<Rightarrow> ('a, 'p) heap \<times> ptr" where
  "NewUnsignedCorim a h = (h(a := UnsignedCorim_zero), Some a)"

subsection \<open>Validation\<close>

text \<open>\<^verbatim>\<open>Tag.Valid\<close>\<close>

definition Tag_Valid :: "Tag \<Rightarrow> error option" where
  "Tag_Valid t = (if length t = 0 then Some (errorString ''empty tag'') else None)"

text \<open>
  Modelled from the spec: \<^verbatim>\<open>comid.TaggedURI.Empty\<close>, a method of this repository's
  \<^verbatim>\<open>comid\<close> package that is not among the sources; the spec's invariant for a locator is
  "href is non-empty".
\<close>

definition TaggedURI_Empty :: "string \<Rightarrow> bool" where
  "TaggedURI_Empty u = (u = [])"

text \<open>
  \<^verbatim>\<open>Locator.Valid\<close>; \<open>ValidHashEntry\<close> is \<^verbatim>\<open>swid.ValidHashEntry\<close>.
\<close>

definition Locator_Valid :: "(nat \<Rightarrow> byte list \<Rightarrow> error option) \<Rightarrow> Locator \<Rightarrow> error option" where
  "Locator_Valid ValidHashEntry l =
     (if TaggedURI_Empty (Href l) then Some (errorString ''empty href'')
      else case Thumbprint l of
        None \<Rightarrow> None
      | Some tp \<Rightarrow>
          (case ValidHashEntry (HashAlgID tp) (HashValue tp) of
             Some err \<Rightarrow>
               Some (wrapError (''invalid locator thumbprint: '' @ Error err) err)
           | None \<Rightarrow> None))"

text \<open>
  \<^verbatim>\<open>ValidProfile\<close>; \<open>IsOID\<close> and \<open>IsURI\<close> are the methods of \<^verbatim>\<open>eat.Profile\<close>.
\<close>

definition ValidProfile :: "('p \<Rightarrow> bool) \<Rightarrow> ('p \<Rightarrow> bool) \<Rightarrow> 'p \<Rightarrow> error option" where
  "ValidProfile IsOID IsURI p =
     (if \<not> IsOID p \<and> \<not> IsURI p then Some (errorString ''profile should be OID or URI'')
      else None)"

text \<open>
  The three \<^verbatim>\<open>for i, x := range\<close> loops of \<^verbatim>\<open>UnsignedCorim.Valid\<close> have one shape: check
  the elements in order and return at the first error, wrapped with the index. \<open>i\<close> is the
  index of the head of the list still to be visited.
\<close>

fun range_Valid :: "string \<Rightarrow> ('x \<Rightarrow> error option) \<Rightarrow> nat \<Rightarrow> 'x list \<Rightarrow> error option" where
  "range_Valid prefix check i [] = None"
| "range_Valid prefix check i (x # xs) =
     (case check x of
        Some err \<Rightarrow> Some (Errorf_pos prefix i err)
      | None \<Rightarrow> range_Valid prefix check (Suc i) xs)"

text \<open>\<^verbatim>\<open>UnsignedCorim.Valid\<close>\<close>

definition UnsignedCorim_Valid ::
  "(nat \<Rightarrow> byte list \<Rightarrow> error option) \<Rightarrow> ('p \<Rightarrow> bool) \<Rightarrow> ('p \<Rightarrow> bool) \<Rightarrow>
   ('a, 'p) UnsignedCorim \<Rightarrow> error option" where
  "UnsignedCorim_Valid ValidHashEntry IsOID IsURI c =
     (if ID c = TagID_zero then Some (errorString ''empty id'')
      else if length (Tags c) = 0 then Some (errorString ''tags validation failed: no tags'')
      else case range_Valid ''tag validation failed at pos '' Tag_Valid 0 (Tags c) of
        Some err \<Rightarrow> Some err
      | None \<Rightarrow>
          (case (case DependentRims c of
                   None \<Rightarrow> None
                 | Some rs \<Rightarrow>
                     range_Valid ''dependent RIM validation failed at pos ''
                       (Locator_Valid ValidHashEntry) 0 rs) of
             Some err \<Rightarrow> Some err
           | None \<Rightarrow>
               (case Profiles c of
                  None \<Rightarrow> None
                | Some ps \<Rightarrow>
                    range_Valid ''profile validation failed at pos ''
                      (ValidProfile IsOID IsURI) 0 ps)))"

subsection \<open>Builder operations\<close>

text \<open>
  Each builder takes the heap and the receiver \<open>self\<close> and returns the heap after the
  call with the pointer the method returns. Slices are modelled by their contents.
\<close>

text \<open>\<^verbatim>\<open>SetID\<close>; \<open>NewTagID\<close> is \<^verbatim>\<open>swid.NewTagID\<close>, which returns a pointer (\<open>None\<close> when \<^verbatim>\<open>nil\<close>).\<close>

definition SetID ::
  "('v \<Rightarrow> 'a TagID option) \<Rightarrow> 'v \<Rightarrow> ('a, 'p) heap \<Rightarrow> ptr \<Rightarrow> ('a, 'p) heap \<times> ptr" where
  "SetID NewTagID v h self =
     (case self of
        None \<Rightarrow> (h, self)
      | Some a \<Rightarrow>
          (case NewTagID v of
             None \<Rightarrow> (h, None)
           | Some tagID \<Rightarrow> (h(a := (h a)\<lparr>ID := tagID\<rparr>), self)))"

text \<open>
  \<^verbatim>\<open>AddComid\<close>; \<open>Comid_Valid\<close> and \<open>Comid_ToCBOR\<close> are the methods \<^verbatim>\<open>Valid\<close> and \<^verbatim>\<open>ToCBOR\<close>
  of \<^verbatim>\<open>comid.Comid\<close> (\<open>'c\<close>).
\<close>

definition AddComid ::
  "('c \<Rightarrow> error option) \<Rightarrow> ('c \<Rightarrow> error + byte list) \<Rightarrow> 'c \<Rightarrow> ('a, 'p) heap \<Rightarrow> ptr \<Rightarrow>
   ('a, 'p) heap \<times> ptr" where
  "AddComid Comid_Valid Comid_ToCBOR c h self =
     (case self of
        None \<Rightarrow> (h, self)
      | Some a \<Rightarrow>
          (case Comid_Valid c of
             Some err \<Rightarrow> (h, None)
           | None \<Rightarrow>
               (case Comid_ToCBOR c of
                  Inl err \<Rightarrow> (h, None)
                | Inr comidCBOR \<Rightarrow>
                    (let comidTag = [0xd9, 0x01, 0xfa];
                         taggedComid = comidTag @ comidCBOR
                     in (h(a := (h a)\<lparr>Tags := Tags (h a) @ [taggedComid]\<rparr>), self)))))"

text \<open>
  \<^verbatim>\<open>AddCoswid\<close>; \<open>Coswid_ToCBOR\<close> is the method \<^verbatim>\<open>ToCBOR\<close> of \<^verbatim>\<open>swid.SoftwareIdentity\<close>
  (\<open>'s\<close>). The source calls no validator here: "Currently the swid package doesn't offer an
  interface for validating the supplied CoSWID, so -- for now -- we take any input for
  granted and pass it to the encoder."
\<close>

definition AddCoswid ::
  "('s \<Rightarrow> error + byte list) \<Rightarrow> 's \<Rightarrow> ('a, 'p) heap \<Rightarrow> ptr \<Rightarrow> ('a, 'p) heap \<times> ptr" where
  "AddCoswid Coswid_ToCBOR c h self =
     (case self of
        None \<Rightarrow> (h, self)
      | Some a \<Rightarrow>
          (case Coswid_ToCBOR c of
             Inl err \<Rightarrow> (h, None)
           | Inr coswidCBOR \<Rightarrow>
               (let coswidTag = [0xd9, 0x01, 0xf9];
                    taggedCoswid = coswidTag @ coswidCBOR
                in (h(a := (h a)\<lparr>Tags := Tags (h a) @ [taggedCoswid]\<rparr>), self))))"

text \<open>\<^verbatim>\<open>AddDependentRim\<close>: \<^verbatim>\<open>new([]Locator)\<close> is a pointer to an empty slice.\<close>

definition AddDependentRim ::
  "string \<Rightarrow> HashEntry option \<Rightarrow> ('a, 'p) heap \<Rightarrow> ptr \<Rightarrow> ('a, 'p) heap \<times> ptr" where
  "AddDependentRim href thumbprint h self =
     (case self of
        None \<Rightarrow> (h, self)
      | Some a \<Rightarrow>
          (let l = \<lparr>Href = href, Thumbprint = thumbprint\<rparr>;
               rims = (case DependentRims (h a) of None \<Rightarrow> [] | Some rs \<Rightarrow> rs)
           in (h(a := (h a)\<lparr>DependentRims := Some (rims @ [l])\<rparr>), self)))"

text \<open>\<^verbatim>\<open>AddProfile\<close>; \<open>NewProfile\<close> is \<^verbatim>\<open>eat.NewProfile\<close>.\<close>

definition AddProfile ::
  "(string \<Rightarrow> error + 'p) \<Rightarrow> string \<Rightarrow> ('a, 'p) heap \<Rightarrow> ptr \<Rightarrow> ('a, 'p) heap \<times> ptr" where
  "AddProfile NewProfile urlOrOID h self =
     (case self of
        None \<Rightarrow> (h, self)
      | Some a \<Rightarrow>
          (case NewProfile urlOrOID of
             Inl err \<Rightarrow> (h, None)
           | Inr p \<Rightarrow>
               (let profiles = (case Profiles (h a) of None \<Rightarrow> [] | Some ps \<Rightarrow> ps)
                in (h(a := (h a)\<lparr>Profiles := Some (profiles @ [p])\<rparr>), self))))"

subsection \<open>Codec entry points\<close>

text \<open>
  The encoder \<^verbatim>\<open>em.Marshal\<close> and the decoders \<^verbatim>\<open>dm.Unmarshal\<close> and \<^verbatim>\<open>json.Unmarshal\<close> are
  engines outside this file. A decoder is given the bytes and the target pointer; it may
  write to the heap and returns an error or \<^verbatim>\<open>nil\<close>.
\<close>

type_synonym ('a, 'p) unmarshal =
  "byte list \<Rightarrow> ptr \<Rightarrow> ('a, 'p) heap \<Rightarrow> ('a, 'p) heap \<times> error option"

definition ToCBOR ::
  "(('a, 'p) UnsignedCorim \<Rightarrow> error + byte list) \<Rightarrow> ('a, 'p) UnsignedCorim \<Rightarrow> error + byte list" where
  "ToCBOR em_Marshal c = em_Marshal c"

definition FromCBOR ::
  "('a, 'p) unmarshal \<Rightarrow> byte list \<Rightarrow> ('a, 'p) heap \<Rightarrow> ptr \<Rightarrow> ('a, 'p) heap \<times> error option" where
  "FromCBOR dm_Unmarshal data h self = dm_Unmarshal data self h"

definition FromJSON ::
  "('a, 'p) unmarshal \<Rightarrow> byte list \<Rightarrow> ('a, 'p) heap \<Rightarrow> ptr \<Rightarrow> ('a, 'p) heap \<times> error option" where
  "FromJSON json_Unmarshal data h self = json_Unmarshal data self h"

subsection \<open>The validator as the specification words it\<close>

text \<open>
  The specification describes the validator as five categories, checked in this order, the
  first failing category giving the result; within a category of positions, the first
  violation is reported with its zero-based position. \<open>violations\<close> lists every violation of
  a sequence with its position, in order.
\<close>

definition violations :: "('x \<Rightarrow> error option) \<Rightarrow> 'x list \<Rightarrow> (nat \<times> error) list" where
  "violations check xs =
     List.map_filter (\<lambda>(i, x). map_option (Pair i) (check x)) (enumerate 0 xs)"

definition first_violation :: "string \<Rightarrow> ('x \<Rightarrow> error option) \<Rightarrow> 'x list \<Rightarrow> error option" where
  "first_violation prefix check xs =
     (case violations check xs of
        [] \<Rightarrow> None
      | (i, err) # _ \<Rightarrow> Some (Errorf_pos prefix i err))"

definition category1 :: "('a, 'p) UnsignedCorim \<Rightarrow> error option" where
  "category1 c = (if ID c = TagID_zero then Some (errorString ''empty id'') else None)"

definition category2 :: "('a, 'p) UnsignedCorim \<Rightarrow> error option" where
  "category2 c =
     (if Tags c = [] then Some (errorString ''tags validation failed: no tags'') else None)"

definition category3 :: "('a, 'p) UnsignedCorim \<Rightarrow> error option" where
  "category3 c = first_violation ''tag validation failed at pos '' Tag_Valid (Tags c)"

definition category4 ::
  "(nat \<Rightarrow> byte list \<Rightarrow> error option) \<Rightarrow> ('a, 'p) UnsignedCorim \<Rightarrow> error option" where
  "category4 ValidHashEntry c =
     (case DependentRims c of
        None \<Rightarrow> None
      | Some rs \<Rightarrow>
          first_violation ''dependent RIM validation failed at pos ''
            (Locator_Valid ValidHashEntry) rs)"

definition category5 :: "('p \<Rightarrow> bool) \<Rightarrow> ('p \<Rightarrow> bool) \<Rightarrow> ('a, 'p) UnsignedCorim \<Rightarrow> error option" where
  "category5 IsOID IsURI c =
     (case Profiles c of
        None \<Rightarrow> None
      | Some ps \<Rightarrow>
          first_violation ''profile validation failed at pos '' (ValidProfile IsOID IsURI) ps)"

fun first_failing :: "error option list \<Rightarrow> error option" where
  "first_failing [] = None"
| "first_failing (Some err # rest) = Some err"
| "first_failing (None # rest) = first_failing rest"

definition validate_in_order ::
  "(nat \<Rightarrow> byte list \<Rightarrow> error option) \<Rightarrow> ('p \<Rightarrow> bool) \<Rightarrow> ('p \<Rightarrow> bool) \<Rightarrow>
   ('a, 'p) UnsignedCorim \<Rightarrow> error option" where
  "validate_in_order ValidHashEntry IsOID IsURI c =
     first_failing
       [category1 c, category2 c, category3 c, category4 ValidHashEntry c,
        category5 IsOID IsURI c]"

subsection \<open>Example collaborators and containers\<close>

text \<open>
  Small stand-ins for the outside packages, used to run the operations on concrete inputs:
  a tag id parser that rejects the empty string, a sub-manifest that carries its validity
  and its encoding, a profile parser that knows one URI and one OID, and a hash validator that
  accepts everything.
\<close>

definition example_NewTagID :: "string \<Rightarrow> string TagID option" where
  "example_NewTagID s = (if s = [] then None else Some (TagID_val s))"

datatype example_doc = Doc bool "byte list"

fun example_doc_Valid :: "example_doc \<Rightarrow> error option" where
  "example_doc_Valid (Doc ok bs) = (if ok then None else Some (errorString ''invalid document''))"

fun example_doc_ToCBOR :: "example_doc \<Rightarrow> error + byte list" where
  "example_doc_ToCBOR (Doc ok bs) =
     (if bs = [] then Inl (errorString ''nothing to encode'') else Inr bs)"

datatype example_Profile = Profile_URI string | Profile_OID "nat list" | Profile_unset

fun example_IsOID :: "example_Profile \<Rightarrow> bool" where
  "example_IsOID (Profile_OID ns) = True"
| "example_IsOID p = False"

fun example_IsURI :: "example_Profile \<Rightarrow> bool" where
  "example_IsURI (Profile_URI u) = True"
| "example_IsURI p = False"

definition example_NewProfile :: "string \<Rightarrow> error + example_Profile" where
  "example_NewProfile s =
     (if s = ''https://example.org/profile'' then Inr (Profile_URI s)
      else if s = ''2.16.840.1.101.3.4'' then Inr (Profile_OID [2, 16, 840, 1, 101, 3, 4])
      else Inl (errorString ''no valid OID or URL''))"

definition example_ValidHashEntry :: "nat \<Rightarrow> byte list \<Rightarrow> error option" where
  "example_ValidHashEntry alg val = None"

definition example_corim :: "(string, example_Profile) UnsignedCorim" where
  "example_corim =
     \<lparr>ID = TagID_val ''test corim id'', Tags = [[0xd9, 0x01, 0xfa, 0xa0]],
      DependentRims = None, Profiles = None\<rparr>"

definition example_heap :: "(string, example_Profile) heap" where
  "example_heap = (\<lambda>a. example_corim)"

text \<open>A valid container that already has one valid locator.\<close>

definition example_corim_with_rim :: "(string, example_Profile) UnsignedCorim" where
  "example_corim_with_rim =
     example_corim\<lparr>DependentRims :=
       Some [\<lparr>Href = ''https://example.org/rim'', Thumbprint = None\<rparr>]\<rparr>"

definition example_heap_with_rim :: "(string, example_Profile) heap" where
  "example_heap_with_rim = (\<lambda>a. example_corim_with_rim)"

section \<open>Properties\<close>

subsection \<open>The loops of the validator\<close>

lemma range_Valid_first:
  "(\<forall>x\<in>set pre. check x = None) \<Longrightarrow> check y = Some e \<Longrightarrow>
   range_Valid prefix check i (pre @ y # post) = Some (Errorf_pos prefix (i + length pre) e)"
  by (induction pre arbitrary: i) auto

lemma range_Valid_None_iff:
  "range_Valid prefix check i xs = None \<longleftrightarrow> (\<forall>x\<in>set xs. check x = None)"
  by (induction xs arbitrary: i) (auto split: option.splits)

lemma range_Valid_violations:
  "range_Valid prefix check i xs =
     (case List.map_filter (\<lambda>(i, x). map_option (Pair i) (check x)) (enumerate i xs) of
        [] \<Rightarrow> None
      | (j, err) # _ \<Rightarrow> Some (Errorf_pos prefix j err))"
  by (induction xs arbitrary: i) (auto split: option.splits)

subsection \<open>Order of the categories\<close>

text \<open>
  Claim C3. \<^verbatim>\<open>UnsignedCorim.Valid\<close> checks the five categories in the fixed order (id
  non-empty, tag list non-empty, each tag, each locator, each profile) and its result is
  that of the first failing category: it equals \<open>validate_in_order\<close>. In particular a
  container whose id is the empty sentinel gets "empty id" whatever its other fields hold,
  and so does a freshly constructed container.
\<close>

theorem Valid_category_order:
  "UnsignedCorim_Valid vhe oid uri c = validate_in_order vhe oid uri c \<and>
   UnsignedCorim_Valid vhe oid uri (c\<lparr>ID := TagID_zero\<rparr>) = Some (errorString ''empty id'') \<and>
   UnsignedCorim_Valid vhe oid uri (fst (NewUnsignedCorim a h) a) =
     Some (errorString ''empty id'')"
proof -
  have "UnsignedCorim_Valid vhe oid uri c = validate_in_order vhe oid uri c"
    by (auto simp: UnsignedCorim_Valid_def validate_in_order_def category1_def category2_def
        category3_def category4_def category5_def first_violation_def violations_def
        range_Valid_violations split: option.splits list.splits)
  moreover have "UnsignedCorim_Valid vhe oid uri (c\<lparr>ID := TagID_zero\<rparr>) =
      Some (errorString ''empty id'')"
    by (simp add: UnsignedCorim_Valid_def)
  moreover have "UnsignedCorim_Valid vhe oid uri (fst (NewUnsignedCorim a h) a) =
      Some (errorString ''empty id'')"
    by (simp add: UnsignedCorim_Valid_def NewUnsignedCorim_def UnsignedCorim_zero_def)
  ultimately show ?thesis by simp
qed

theorem Valid_category_order_witness:
  "UnsignedCorim_Valid example_ValidHashEntry example_IsOID example_IsURI
     (example_corim\<lparr>ID := TagID_zero, Tags := [],
        DependentRims := Some [\<lparr>Href = [], Thumbprint = None\<rparr>],
        Profiles := Some [Profile_unset]\<rparr>) = Some (errorString ''empty id'')"
  using Valid_category_order [of example_ValidHashEntry example_IsOID example_IsURI
      "example_corim\<lparr>ID := TagID_zero, Tags := [],
        DependentRims := Some [\<lparr>Href = [], Thumbprint = None\<rparr>],
        Profiles := Some [Profile_unset]\<rparr>" 0 example_heap]
  by (simp add: validate_in_order_def category1_def)

subsection \<open>The first zero-length tag\<close>

text \<open>
  Claim C4. When the id is not the empty sentinel and \<open>i\<close> is the index of the first
  zero-length tag, \<^verbatim>\<open>Valid\<close> returns "tag validation failed at pos i: empty tag", wrapping
  "empty tag". Nothing after that tag is examined: the result is the same whatever tags
  follow position \<open>i\<close>, whatever the locators and profiles are, and whatever the hash and
  profile checks would answer.
\<close>

theorem Valid_first_empty_tag:
  assumes "ID c \<noteq> TagID_zero"
    and "i < length (Tags c)"
    and "Tags c ! i = []"
    and "\<forall>j<i. Tags c ! j \<noteq> []"
  shows "UnsignedCorim_Valid vhe oid uri c =
           Some (wrapError (''tag validation failed at pos '' @ itoa i @ '': empty tag'')
                   (errorString ''empty tag'')) \<and>
         UnsignedCorim_Valid vhe' oid' uri'
             (c\<lparr>Tags := take (Suc i) (Tags c) @ later, DependentRims := rims,
                Profiles := profs\<rparr>) =
           UnsignedCorim_Valid vhe oid uri c"
proof -
  let ?e = "Some (wrapError (''tag validation failed at pos '' @ itoa i @ '': empty tag'')
                   (errorString ''empty tag''))"
  have pre: "\<forall>t\<in>set (take i (Tags c)). Tag_Valid t = None"
    using assms(2,4) by (auto simp: Tag_Valid_def in_set_conv_nth)
  have bad: "Tag_Valid [] = Some (errorString ''empty tag'')"
    by (simp add: Tag_Valid_def)
  have loop: "range_Valid ''tag validation failed at pos '' Tag_Valid 0
      (take i (Tags c) @ [] # post) = ?e" for post
    using range_Valid_first [OF pre bad, of "''tag validation failed at pos ''" 0 post] assms(2)
    by (simp add: Errorf_pos_def)
  have split1: "Tags c = take i (Tags c) @ [] # drop (Suc i) (Tags c)"
    using assms(2,3) id_take_nth_drop by metis
  have split2: "take (Suc i) (Tags c) @ later = take i (Tags c) @ [] # later"
    using assms(2,3) by (simp add: take_Suc_conv_app_nth)
  have one: "UnsignedCorim_Valid vhe oid uri c = ?e"
    using assms(1,2) loop [of "drop (Suc i) (Tags c)"] split1
    by (auto simp: UnsignedCorim_Valid_def)
  have two: "UnsignedCorim_Valid vhe' oid' uri'
      (c\<lparr>Tags := take (Suc i) (Tags c) @ later, DependentRims := rims, Profiles := profs\<rparr>) = ?e"
    using assms(1) loop [of later] split2
    by (auto simp: UnsignedCorim_Valid_def)
  show ?thesis using one two by simp
qed

theorem Valid_first_empty_tag_witness:
  "UnsignedCorim_Valid example_ValidHashEntry example_IsOID example_IsURI
     (example_corim\<lparr>Tags := [[0xd9, 0x01, 0xfa, 0xa0], [], [0xd9, 0x01, 0xf9, 0xa0], []]\<rparr>) =
   Some (wrapError ''tag validation failed at pos 1: empty tag'' (errorString ''empty tag''))"
proof -
  let ?c = "example_corim\<lparr>Tags := [[0xd9, 0x01, 0xfa, 0xa0], [], [0xd9, 0x01, 0xf9, 0xa0], []]\<rparr>"
  have h1: "ID ?c \<noteq> TagID_zero" by (simp add: example_corim_def)
  have h2: "1 < length (Tags ?c)" by simp
  have h3: "Tags ?c ! 1 = []" by simp
  have h4: "\<forall>j<1. Tags ?c ! j \<noteq> []" by simp
  show ?thesis
    using Valid_first_empty_tag [OF h1 h2 h3 h4]
    by (simp add: itoa.simps digit_def)
qed

subsection \<open>Adding sub-manifests\<close>

text \<open>
  Claim C1, as amended. \<^verbatim>\<open>AddComid\<close> consults the CoMID validator before anything else:
  when the document fails it, the call returns \<^verbatim>\<open>nil\<close> and the heap, hence the tag list and
  every other field of the container, is unchanged; a valid document whose encoding fails
  gives the same, and a valid document that encodes is appended behind the prefix
  \<^verbatim>\<open>D9 01 FA\<close>. \<^verbatim>\<open>AddCoswid\<close> consults no validator: it returns \<^verbatim>\<open>nil\<close> exactly when
  the encoder fails, and then the heap is unchanged; otherwise it appends the prefix
  \<^verbatim>\<open>D9 01 F9\<close> followed by the encoding as the last tag and returns the receiver.
\<close>

theorem AddComid_validates_AddCoswid_encodes:
  "(Comid_Valid c \<noteq> None \<longrightarrow>
      AddComid Comid_Valid Comid_ToCBOR c h (Some a) = (h, None)) \<and>
   (Comid_Valid c = None \<and> Comid_ToCBOR c = Inl err \<longrightarrow>
      AddComid Comid_Valid Comid_ToCBOR c h (Some a) = (h, None)) \<and>
   (Comid_Valid c = None \<and> Comid_ToCBOR c = Inr bs \<longrightarrow>
      AddComid Comid_Valid Comid_ToCBOR c h (Some a) =
        (h(a := (h a)\<lparr>Tags := Tags (h a) @ [[0xd9, 0x01, 0xfa] @ bs]\<rparr>), Some a)) \<and>
   ((snd (AddCoswid Coswid_ToCBOR s h (Some a)) = None) = (\<exists>err. Coswid_ToCBOR s = Inl err)) \<and>
   (snd (AddCoswid Coswid_ToCBOR s h (Some a)) = None \<longrightarrow>
      fst (AddCoswid Coswid_ToCBOR s h (Some a)) = h) \<and>
   (Coswid_ToCBOR s = Inr bs' \<longrightarrow>
      AddCoswid Coswid_ToCBOR s h (Some a) =
        (h(a := (h a)\<lparr>Tags := Tags (h a) @ [[0xd9, 0x01, 0xf9] @ bs']\<rparr>), Some a))"
  by (auto simp: AddComid_def AddCoswid_def Let_def split: sum.splits)

theorem AddComid_validates_AddCoswid_encodes_witness:
  "example_doc_Valid (Doc False [0xa0]) \<noteq> None \<and>
   AddComid example_doc_Valid example_doc_ToCBOR (Doc False [0xa0]) example_heap (Some 0) =
     (example_heap, None) \<and>
   AddComid example_doc_Valid example_doc_ToCBOR (Doc True []) example_heap (Some 0) =
     (example_heap, None) \<and>
   AddComid example_doc_Valid example_doc_ToCBOR (Doc True [0xa0]) example_heap (Some 0) =
     (example_heap(0 := example_corim\<lparr>Tags :=
        [[0xd9, 0x01, 0xfa, 0xa0], [0xd9, 0x01, 0xfa, 0xa0]]\<rparr>), Some 0) \<and>
   example_doc_ToCBOR (Doc True []) = Inl (errorString ''nothing to encode'') \<and>
   AddCoswid example_doc_ToCBOR (Doc True []) example_heap (Some 0) = (example_heap, None) \<and>
   AddCoswid example_doc_ToCBOR (Doc False [0xa0]) example_heap (Some 0) =
     (example_heap(0 := example_corim\<lparr>Tags :=
        [[0xd9, 0x01, 0xfa, 0xa0], [0xd9, 0x01, 0xf9, 0xa0]]\<rparr>), Some 0)"
proof -
  have cell: "example_heap 0 = example_corim"
    by (simp add: example_heap_def)
  have tags: "Tags example_corim = [[0xd9, 0x01, 0xfa, 0xa0]]"
    by (simp add: example_corim_def)
  have bad: "example_doc_Valid (Doc False [0xa0]) \<noteq> None" by simp
  have good: "example_doc_Valid (Doc True bs) = None" for bs by simp
  have enc: "example_doc_ToCBOR (Doc ok [0xa0]) = Inr [0xa0]" for ok by simp
  have noenc: "example_doc_ToCBOR (Doc True []) = Inl (errorString ''nothing to encode'')"
    by simp
  note invalid = AddComid_validates_AddCoswid_encodes
    [of example_doc_Valid "Doc False [0xa0]" example_doc_ToCBOR example_heap 0
        _ _ example_doc_ToCBOR "Doc True []"]
  note unencodable = AddComid_validates_AddCoswid_encodes
    [of example_doc_Valid "Doc True []" example_doc_ToCBOR example_heap 0
        "errorString ''nothing to encode''" _ example_doc_ToCBOR "Doc True []"]
  note encodable = AddComid_validates_AddCoswid_encodes
    [of example_doc_Valid "Doc True [0xa0]" example_doc_ToCBOR example_heap 0
        _ "[0xa0]" example_doc_ToCBOR "Doc False [0xa0]" "[0xa0]"]
  have one: "AddComid example_doc_Valid example_doc_ToCBOR (Doc False [0xa0]) example_heap
      (Some 0) = (example_heap, None)"
    using conjunct1 [OF invalid] bad by blast
  have two: "AddComid example_doc_Valid example_doc_ToCBOR (Doc True []) example_heap
      (Some 0) = (example_heap, None)"
    using conjunct1 [OF conjunct2 [OF unencodable]] good noenc by blast
  have three: "AddComid example_doc_Valid example_doc_ToCBOR (Doc True [0xa0]) example_heap
      (Some 0) = (example_heap(0 := example_corim\<lparr>Tags :=
        [[0xd9, 0x01, 0xfa, 0xa0], [0xd9, 0x01, 0xfa, 0xa0]]\<rparr>), Some 0)"
    using conjunct1 [OF conjunct2 [OF conjunct2 [OF encodable]]] good [of "[0xa0]"]
      enc [of True]
    by (simp add: cell tags)
  have four: "AddCoswid example_doc_ToCBOR (Doc True []) example_heap (Some 0) =
      (example_heap, None)"
    using conjunct2 [OF conjunct2 [OF conjunct2 [OF invalid]]] noenc
    by (simp add: prod_eq_iff)
  have five: "AddCoswid example_doc_ToCBOR (Doc False [0xa0]) example_heap (Some 0) =
      (example_heap(0 := example_corim\<lparr>Tags :=
        [[0xd9, 0x01, 0xfa, 0xa0], [0xd9, 0x01, 0xf9, 0xa0]]\<rparr>), Some 0)"
    using conjunct2 [OF conjunct2 [OF conjunct2 [OF conjunct2 [OF conjunct2 [OF encodable]]]]]
      enc [of False]
    by (simp add: cell tags)
  show ?thesis using bad one two three noenc four five by blast
qed

text \<open>
  The claim as first stated fails for \<^verbatim>\<open>AddCoswid\<close>: a document that its validator rejects
  is appended all the same, and the tag list grows from one tag to two.
\<close>

theorem AddCoswid_accepts_invalid_counterexample:
  "example_doc_Valid (Doc False [0xa0]) = Some (errorString ''invalid document'') \<and>
   Tags (example_heap 0) = [[0xd9, 0x01, 0xfa, 0xa0]] \<and>
   AddCoswid example_doc_ToCBOR (Doc False [0xa0]) example_heap (Some 0) =
     (example_heap(0 := example_corim\<lparr>Tags :=
        [[0xd9, 0x01, 0xfa, 0xa0], [0xd9, 0x01, 0xf9, 0xa0]]\<rparr>), Some 0)"
  by (simp add: AddCoswid_def example_heap_def example_corim_def)

text \<open>
  Claim C2. A CoMID that passes its validator and encodes to \<open>bs\<close> is appended as the tag
  \<^verbatim>\<open>D9 01 FA\<close> followed by \<open>bs\<close>; a CoSWID that encodes to \<open>bs'\<close> is appended as
  \<^verbatim>\<open>D9 01 F9\<close> followed by \<open>bs'\<close>. The tag goes to the end of the tag list and nothing else
  changes.
\<close>

theorem AddSubManifest_tag_bytes:
  "(Comid_Valid c = None \<and> Comid_ToCBOR c = Inr bs \<longrightarrow>
      AddComid Comid_Valid Comid_ToCBOR c h (Some a) =
        (h(a := (h a)\<lparr>Tags := Tags (h a) @ [[0xd9, 0x01, 0xfa] @ bs]\<rparr>), Some a)) \<and>
   (Coswid_ToCBOR s = Inr bs' \<longrightarrow>
      AddCoswid Coswid_ToCBOR s h (Some a) =
        (h(a := (h a)\<lparr>Tags := Tags (h a) @ [[0xd9, 0x01, 0xf9] @ bs']\<rparr>), Some a))"
  by (simp add: AddComid_def AddCoswid_def)

theorem AddSubManifest_tag_bytes_witness:
  "AddComid example_doc_Valid example_doc_ToCBOR (Doc True [0xa0]) example_heap (Some 0) =
     (example_heap(0 := example_corim\<lparr>Tags :=
        [[0xd9, 0x01, 0xfa, 0xa0], [0xd9, 0x01, 0xfa, 0xa0]]\<rparr>), Some 0) \<and>
   AddCoswid example_doc_ToCBOR (Doc True [0xa1, 0x00, 0x60]) example_heap (Some 0) =
     (example_heap(0 := example_corim\<lparr>Tags :=
        [[0xd9, 0x01, 0xfa, 0xa0], [0xd9, 0x01, 0xf9, 0xa1, 0x00, 0x60]]\<rparr>), Some 0)"
  using AddSubManifest_tag_bytes
    [of example_doc_Valid "Doc True [0xa0]" example_doc_ToCBOR "[0xa0]" example_heap 0
        example_doc_ToCBOR "Doc True [0xa1, 0x00, 0x60]" "[0xa1, 0x00, 0x60]"]
  by (simp add: example_heap_def example_corim_def)

subsection \<open>Failing builders change nothing\<close>

text \<open>
  Claim C6. Whenever \<^verbatim>\<open>SetID\<close>, \<^verbatim>\<open>AddComid\<close>, \<^verbatim>\<open>AddCoswid\<close> or \<^verbatim>\<open>AddProfile\<close> returns
  \<^verbatim>\<open>nil\<close>, the heap after the call is the heap before it, so every field of the container
  (id, tags, dependent RIMs, profiles) keeps its value. In particular \<^verbatim>\<open>SetID\<close> returns
  \<^verbatim>\<open>nil\<close> and changes nothing when \<^verbatim>\<open>swid.NewTagID\<close> cannot normalise the input.
\<close>

theorem Builder_failure_frame:
  "(snd (SetID NewTagID v h self) = None \<longrightarrow> fst (SetID NewTagID v h self) = h) \<and>
   (snd (AddComid Comid_Valid Comid_ToCBOR c h self) = None \<longrightarrow>
      fst (AddComid Comid_Valid Comid_ToCBOR c h self) = h) \<and>
   (snd (AddCoswid Coswid_ToCBOR s h self) = None \<longrightarrow>
      fst (AddCoswid Coswid_ToCBOR s h self) = h) \<and>
   (snd (AddProfile NewProfile urlOrOID h self) = None \<longrightarrow>
      fst (AddProfile NewProfile urlOrOID h self) = h) \<and>
   (NewTagID v = None \<longrightarrow> SetID NewTagID v h self = (h, None))"
  by (auto simp: SetID_def AddComid_def AddCoswid_def AddProfile_def Let_def
      split: option.splits sum.splits)

theorem Builder_failure_frame_witness:
  "example_NewTagID [] = None \<and>
   SetID example_NewTagID [] example_heap (Some 0) = (example_heap, None) \<and>
   AddComid example_doc_Valid example_doc_ToCBOR (Doc False [0xa0]) example_heap (Some 0) =
     (example_heap, None) \<and>
   AddCoswid example_doc_ToCBOR (Doc True []) example_heap (Some 0) = (example_heap, None) \<and>
   AddProfile example_NewProfile ''not-a-uri-not-an-oid'' example_heap (Some 0) =
     (example_heap, None)"
proof -
  have h0: "example_NewTagID [] = None"
    by (simp add: example_NewTagID_def)
  have h1: "snd (AddComid example_doc_Valid example_doc_ToCBOR (Doc False [0xa0])
      example_heap (Some 0)) = None"
    by (simp add: AddComid_def)
  have h2: "snd (AddCoswid example_doc_ToCBOR (Doc True []) example_heap (Some 0)) = None"
    by (simp add: AddCoswid_def)
  have h3: "snd (AddProfile example_NewProfile ''not-a-uri-not-an-oid'' example_heap (Some 0)) =
      None"
    by (simp add: AddProfile_def example_NewProfile_def)
  from Builder_failure_frame
    [of example_NewTagID "[]" example_heap "Some 0" example_doc_Valid example_doc_ToCBOR
        "Doc False [0xa0]" example_doc_ToCBOR "Doc True []" example_NewProfile
        "''not-a-uri-not-an-oid''"]
  show ?thesis
    using h0 h1 h2 h3 by (simp add: prod_eq_iff)
qed

subsection \<open>Dependent RIMs\<close>

text \<open>
  Claim C7, as amended. \<^verbatim>\<open>AddDependentRim\<close> checks nothing: for every href and every
  thumbprint it appends the locator to the dependent RIMs (the empty list when there were
  none) and returns the receiver. When the container was valid before, adding the empty
  href makes \<^verbatim>\<open>Valid\<close> fail in the locator category at the position of the new locator,
  which is the number of locators the container already had (0 when it had none), with
  cause "empty href".
\<close>

theorem AddDependentRim_unvalidated:
  "AddDependentRim href thumbprint h (Some a) =
     (h(a := (h a)\<lparr>DependentRims :=
          Some ((case DependentRims (h a) of None \<Rightarrow> [] | Some rs \<Rightarrow> rs) @
                [\<lparr>Href = href, Thumbprint = thumbprint\<rparr>])\<rparr>), Some a) \<and>
   (UnsignedCorim_Valid vhe oid uri (h a) = None \<longrightarrow>
      UnsignedCorim_Valid vhe oid uri (fst (AddDependentRim [] None h (Some a)) a) =
        Some (wrapError
               (''dependent RIM validation failed at pos '' @
                itoa (length (case DependentRims (h a) of None \<Rightarrow> [] | Some rs \<Rightarrow> rs)) @
                '': empty href'')
               (errorString ''empty href'')))"
proof -
  let ?rims = "case DependentRims (h a) of None \<Rightarrow> [] | Some rs \<Rightarrow> rs"
  let ?P = "''dependent RIM validation failed at pos ''"
  have add: "AddDependentRim href thumbprint h (Some a) =
      (h(a := (h a)\<lparr>DependentRims :=
         Some (?rims @ [\<lparr>Href = href, Thumbprint = thumbprint\<rparr>])\<rparr>), Some a)"
    for href thumbprint
    by (simp add: AddDependentRim_def)
  have bad: "Locator_Valid vhe \<lparr>Href = [], Thumbprint = None\<rparr> =
      Some (errorString ''empty href'')"
    by (simp add: Locator_Valid_def TaggedURI_Empty_def)
  have valid: "UnsignedCorim_Valid vhe oid uri (fst (AddDependentRim [] None h (Some a)) a) =
      Some (wrapError (?P @ itoa (length ?rims) @ '': empty href'') (errorString ''empty href''))"
    if ok: "UnsignedCorim_Valid vhe oid uri (h a) = None"
  proof -
    from ok have id: "ID (h a) \<noteq> TagID_zero" and tags: "Tags (h a) \<noteq> []"
      and tl: "range_Valid ''tag validation failed at pos '' Tag_Valid 0 (Tags (h a)) = None"
      and rl: "\<forall>l\<in>set ?rims. Locator_Valid vhe l = None"
      by (auto simp: UnsignedCorim_Valid_def range_Valid_None_iff
          split: if_splits option.splits)
    have "range_Valid ?P (Locator_Valid vhe) 0 (?rims @ \<lparr>Href = [], Thumbprint = None\<rparr> # []) =
        Some (Errorf_pos ?P (0 + length ?rims) (errorString ''empty href''))"
      using rl bad by (rule range_Valid_first)
    then show ?thesis
      using id tags tl by (simp add: add UnsignedCorim_Valid_def Errorf_pos_def)
  qed
  show ?thesis using add valid by blast
qed

theorem AddDependentRim_unvalidated_witness:
  "UnsignedCorim_Valid example_ValidHashEntry example_IsOID example_IsURI (example_heap 0) = None \<and>
   AddDependentRim [] None example_heap (Some 0) =
     (example_heap(0 := example_corim\<lparr>DependentRims :=
        Some [\<lparr>Href = [], Thumbprint = None\<rparr>]\<rparr>), Some 0) \<and>
   UnsignedCorim_Valid example_ValidHashEntry example_IsOID example_IsURI
       (fst (AddDependentRim [] None example_heap (Some 0)) 0) =
     Some (wrapError ''dependent RIM validation failed at pos 0: empty href''
             (errorString ''empty href''))"
proof -
  have cell: "example_heap 0 = example_corim"
    by (simp add: example_heap_def)
  have rims: "DependentRims example_corim = None"
    by (simp add: example_corim_def)
  have ok: "UnsignedCorim_Valid example_ValidHashEntry example_IsOID example_IsURI
      (example_heap 0) = None"
    by (simp add: UnsignedCorim_Valid_def cell example_corim_def Tag_Valid_def)
  note inst = AddDependentRim_unvalidated
    [of "[]" None example_heap 0 example_ValidHashEntry example_IsOID example_IsURI]
  from conjunct1 [OF inst] have add: "AddDependentRim [] None example_heap (Some 0) =
     (example_heap(0 := example_corim\<lparr>DependentRims :=
        Some [\<lparr>Href = [], Thumbprint = None\<rparr>]\<rparr>), Some 0)"
    by (simp add: cell rims)
  from conjunct2 [OF inst] ok have after: "UnsignedCorim_Valid example_ValidHashEntry example_IsOID example_IsURI
       (fst (AddDependentRim [] None example_heap (Some 0)) 0) =
     Some (wrapError ''dependent RIM validation failed at pos 0: empty href''
             (errorString ''empty href''))"
    by (simp add: cell rims itoa.simps digit_def)
  show ?thesis using ok add after by blast
qed

text \<open>
  The claim as first stated fixes the position at 0. On a valid container that already has
  one valid locator the empty href is reported at position 1.
\<close>

theorem AddDependentRim_position_counterexample:
  "UnsignedCorim_Valid example_ValidHashEntry example_IsOID example_IsURI
       (example_heap_with_rim 0) = None \<and>
   UnsignedCorim_Valid example_ValidHashEntry example_IsOID example_IsURI
       (fst (AddDependentRim [] None example_heap_with_rim (Some 0)) 0) =
     Some (wrapError ''dependent RIM validation failed at pos 1: empty href''
             (errorString ''empty href''))"
  by (simp add: UnsignedCorim_Valid_def AddDependentRim_def example_heap_with_rim_def
      example_corim_with_rim_def example_corim_def Tag_Valid_def Locator_Valid_def
      TaggedURI_Empty_def Errorf_pos_def itoa.simps digit_def)

subsection \<open>Profiles\<close>

text \<open>
  Claim C8. \<^verbatim>\<open>AddProfile\<close> hands its string to the profile parser \<^verbatim>\<open>eat.NewProfile\<close>. When
  the parser reports an error, the call returns \<^verbatim>\<open>nil\<close> and changes nothing. When the
  parser returns a profile, the profile is appended to the profile list (the empty list
  when there was none) and the receiver is returned; two profiles added one after the
  other sit at the end of the list in the order they were added.
\<close>

theorem AddProfile_parse:
  "(NewProfile s = Inl err \<longrightarrow> AddProfile NewProfile s h (Some a) = (h, None)) \<and>
   (NewProfile s = Inr p \<longrightarrow>
      AddProfile NewProfile s h (Some a) =
        (h(a := (h a)\<lparr>Profiles :=
             Some ((case Profiles (h a) of None \<Rightarrow> [] | Some ps \<Rightarrow> ps) @ [p])\<rparr>), Some a)) \<and>
   (NewProfile s = Inr p \<and> NewProfile s' = Inr p' \<longrightarrow>
      AddProfile NewProfile s' (fst (AddProfile NewProfile s h (Some a))) (Some a) =
        (h(a := (h a)\<lparr>Profiles :=
             Some ((case Profiles (h a) of None \<Rightarrow> [] | Some ps \<Rightarrow> ps) @ [p, p'])\<rparr>), Some a))"
  by (simp add: AddProfile_def)

theorem AddProfile_parse_witness:
  "AddProfile example_NewProfile ''not-a-uri-not-an-oid'' example_heap (Some 0) =
     (example_heap, None) \<and>
   AddProfile example_NewProfile ''2.16.840.1.101.3.4'' example_heap (Some 0) =
     (example_heap(0 := example_corim\<lparr>Profiles :=
        Some [Profile_OID [2, 16, 840, 1, 101, 3, 4]]\<rparr>), Some 0) \<and>
   AddProfile example_NewProfile ''https://example.org/profile''
       (fst (AddProfile example_NewProfile ''2.16.840.1.101.3.4'' example_heap (Some 0))) (Some 0) =
     (example_heap(0 := example_corim\<lparr>Profiles :=
        Some [Profile_OID [2, 16, 840, 1, 101, 3, 4],
              Profile_URI ''https://example.org/profile'']\<rparr>), Some 0)"
proof -
  have cell: "example_heap 0 = example_corim"
    by (simp add: example_heap_def)
  have profs: "Profiles example_corim = None"
    by (simp add: example_corim_def)
  have bad: "example_NewProfile ''not-a-uri-not-an-oid'' = Inl (errorString ''no valid OID or URL'')"
    by (simp add: example_NewProfile_def)
  have oid: "example_NewProfile ''2.16.840.1.101.3.4'' = Inr (Profile_OID [2, 16, 840, 1, 101, 3, 4])"
    by (simp add: example_NewProfile_def)
  have uri: "example_NewProfile ''https://example.org/profile'' =
      Inr (Profile_URI ''https://example.org/profile'')"
    by (simp add: example_NewProfile_def)
  have one: "AddProfile example_NewProfile ''not-a-uri-not-an-oid'' example_heap (Some 0) =
      (example_heap, None)"
    using AddProfile_parse [of example_NewProfile "''not-a-uri-not-an-oid''"
        "errorString ''no valid OID or URL''" example_heap 0] bad
    by simp
  note inst = AddProfile_parse [of example_NewProfile "''2.16.840.1.101.3.4''" _ example_heap 0
      "Profile_OID [2, 16, 840, 1, 101, 3, 4]" "''https://example.org/profile''"
      "Profile_URI ''https://example.org/profile''"]
  have two: "AddProfile example_NewProfile ''2.16.840.1.101.3.4'' example_heap (Some 0) =
     (example_heap(0 := example_corim\<lparr>Profiles :=
        Some [Profile_OID [2, 16, 840, 1, 101, 3, 4]]\<rparr>), Some 0)"
    using conjunct1 [OF conjunct2 [OF inst]] oid by (simp add: cell profs)
  have three: "AddProfile example_NewProfile ''https://example.org/profile''
       (fst (AddProfile example_NewProfile ''2.16.840.1.101.3.4'' example_heap (Some 0))) (Some 0) =
     (example_heap(0 := example_corim\<lparr>Profiles :=
        Some [Profile_OID [2, 16, 840, 1, 101, 3, 4],
              Profile_URI ''https://example.org/profile'']\<rparr>), Some 0)"
    using conjunct2 [OF conjunct2 [OF inst]] oid uri by (simp add: cell profs)
  show ?thesis using one two three by blast
qed

subsection \<open>Builders on a nil receiver\<close>

text \<open>
  Claim C10. Called on the \<^verbatim>\<open>nil\<close> pointer, each of \<^verbatim>\<open>SetID\<close>, \<^verbatim>\<open>AddComid\<close>,
  \<^verbatim>\<open>AddCoswid\<close>, \<^verbatim>\<open>AddDependentRim\<close> and \<^verbatim>\<open>AddProfile\<close> leaves the heap as it is and
  returns \<^verbatim>\<open>nil\<close>; a chain of the five that starts from \<^verbatim>\<open>nil\<close> does the same.
\<close>

theorem Builders_nil_receiver:
  "SetID NewTagID v h None = (h, None) \<and>
   AddComid Comid_Valid Comid_ToCBOR c h None = (h, None) \<and>
   AddCoswid Coswid_ToCBOR s h None = (h, None) \<and>
   AddDependentRim href thumbprint h None = (h, None) \<and>
   AddProfile NewProfile urlOrOID h None = (h, None) \<and>
   (case SetID NewTagID v h None of (h1, p1) \<Rightarrow>
    case AddComid Comid_Valid Comid_ToCBOR c h1 p1 of (h2, p2) \<Rightarrow>
    case AddCoswid Coswid_ToCBOR s h2 p2 of (h3, p3) \<Rightarrow>
    case AddDependentRim href thumbprint h3 p3 of (h4, p4) \<Rightarrow>
      AddProfile NewProfile urlOrOID h4 p4) = (h, None)"
  by (simp add: SetID_def AddComid_def AddCoswid_def AddDependentRim_def AddProfile_def)

end
